theory Spec2Isabelle
  imports Complex_Main "HOL-Library.Log_Nat" "HOL-Library.Sublist" "HOL-Library.AList"
begin

section \<open>JavaScript values\<close>

subsection \<open>Numbers\<close>

text \<open>
  A JavaScript number is an IEEE 754 binary64 value. A finite value is kept as the
  rational it denotes; \<open>fl\<close> rounds an exact result to the nearest binary64 value
  (ties to even, gradual underflow, overflow to an infinity), so that \<open>+\<close>,
  \<open>*\<close> and \<open>/\<close> round as the machine does. The sign of zero is not kept: the
  program never divides by a computed zero other than an array length, and
  \<open>toFixed\<close> and \<open>===\<close> do not tell the two zeros apart.
\<close>

datatype jsnum = NaN | NInf | Fin rat | PInf

definition pow2 :: "int \<Rightarrow> rat" where
  "pow2 e = (if 0 \<le> e then 2 ^ nat e else 1 / 2 ^ nat (- e))"

definition ilog2 :: "rat \<Rightarrow> int" where
  "ilog2 x = (if 1 \<le> x then int (floorlog 2 (nat \<lfloor>x\<rfloor>)) - 1
              else - int (floorlog 2 (nat (\<lceil>1 / x\<rceil> - 1))))"

definition round_even :: "rat \<Rightarrow> int" where
  "round_even q = (let f = \<lfloor>q\<rfloor>; d = q - of_int f in
     if d < 1 / 2 then f else if 1 / 2 < d then f + 1 else if even f then f else f + 1)"

definition fl :: "rat \<Rightarrow> jsnum" where
  "fl q = (if q = 0 then Fin 0 else
     let a = \<bar>q\<bar>; e = max (ilog2 a) (- 1022); u = pow2 (e - 52);
         r = of_int (round_even (a / u)) * u
     in if pow2 1024 \<le> r then (if q < 0 then NInf else PInf)
        else Fin (if q < 0 then - r else r))"

fun jsadd :: "jsnum \<Rightarrow> jsnum \<Rightarrow> jsnum" where
  "jsadd NaN _ = NaN"
| "jsadd _ NaN = NaN"
| "jsadd (Fin a) (Fin b) = fl (a + b)"
| "jsadd PInf NInf = NaN"
| "jsadd NInf PInf = NaN"
| "jsadd PInf _ = PInf"
| "jsadd _ PInf = PInf"
| "jsadd NInf _ = NInf"
| "jsadd _ NInf = NInf"

definition is_neg :: "jsnum \<Rightarrow> bool" where
  "is_neg x = (case x of NInf \<Rightarrow> True | Fin a \<Rightarrow> a < 0 | _ \<Rightarrow> False)"

definition is_zero :: "jsnum \<Rightarrow> bool" where
  "is_zero x = (x = Fin 0)"

definition is_inf :: "jsnum \<Rightarrow> bool" where
  "is_inf x = (x = PInf \<or> x = NInf)"

definition signed_inf :: "bool \<Rightarrow> jsnum" where
  "signed_inf neg = (if neg then NInf else PInf)"

definition jsmul :: "jsnum \<Rightarrow> jsnum \<Rightarrow> jsnum" where
  "jsmul x y =
     (if x = NaN \<or> y = NaN then NaN
      else if is_inf x \<or> is_inf y then
        (if is_zero x \<or> is_zero y then NaN else signed_inf (is_neg x \<noteq> is_neg y))
      else (case (x, y) of (Fin a, Fin b) \<Rightarrow> fl (a * b) | _ \<Rightarrow> NaN))"

definition jsdiv :: "jsnum \<Rightarrow> jsnum \<Rightarrow> jsnum" where
  "jsdiv x y =
     (if x = NaN \<or> y = NaN then NaN
      else if is_inf x then (if is_inf y then NaN else signed_inf (is_neg x \<noteq> is_neg y))
      else if is_inf y then Fin 0
      else if is_zero y then (if is_zero x then NaN else signed_inf (is_neg x))
      else (case (x, y) of (Fin a, Fin b) \<Rightarrow> fl (a / b) | _ \<Rightarrow> NaN))"

text \<open>The relational operator \<open><\<close> and strict equality \<open>===\<close> on numbers.\<close>

fun num_less :: "jsnum \<Rightarrow> jsnum \<Rightarrow> bool" where
  "num_less NaN _ = False"
| "num_less _ NaN = False"
| "num_less (Fin a) (Fin b) = (a < b)"
| "num_less NInf NInf = False"
| "num_less NInf _ = True"
| "num_less PInf _ = False"
| "num_less _ PInf = True"
| "num_less _ NInf = False"

definition num_strict_eq :: "jsnum \<Rightarrow> jsnum \<Rightarrow> bool" where
  "num_strict_eq x y = (x \<noteq> NaN \<and> y \<noteq> NaN \<and> x = y)"

text \<open>
  \<open>Math.min(...xs)\<close> and \<open>Math.max(...xs)\<close>: the result is \<open>NaN\<close> as soon as one
  argument is, \<open>Infinity\<close> and \<open>-Infinity\<close> on no argument.
\<close>

definition min2 :: "jsnum \<Rightarrow> jsnum \<Rightarrow> jsnum" where
  "min2 x acc = (if x = NaN \<or> acc = NaN then NaN else if num_less x acc then x else acc)"

definition max2 :: "jsnum \<Rightarrow> jsnum \<Rightarrow> jsnum" where
  "max2 x acc = (if x = NaN \<or> acc = NaN then NaN else if num_less acc x then x else acc)"

definition Math_min :: "jsnum list \<Rightarrow> jsnum" where
  "Math_min xs = fold min2 xs PInf"

definition Math_max :: "jsnum list \<Rightarrow> jsnum" where
  "Math_max xs = fold max2 xs NInf"

subsection \<open>Values, errors and text\<close>

text \<open>
  \<open>JBuiltin k\<close> is the built-in object that a read of \<open>k\<close> finds on
  \<open>Object.prototype\<close>.
\<close>

datatype jsval =
    JUndefined
  | JNull
  | JBool bool
  | JNum jsnum
  | JStr string
  | JBuiltin string
  | JArr "jsval list"
  | JObj "(string \<times> jsval) list"

datatype jsdate = JSDate jsnum

text \<open>
  A thrown error: a \<open>SyntaxError\<close> of \<open>JSON.parse\<close>, a \<open>TypeError\<close> (with the
  property or method whose read or call failed), or an \<open>Error\<close> with its message.
\<close>

datatype exn = SyntaxError | TypeError string | Error string

text \<open>
  A string built by a template literal is kept as its parts: literal text, and the
  interpolated values whose conversion to text is the engine's: a number
  (\<open>Num\<close>), \<open>x.toFixed(d)\<close> (\<open>Fixed d x\<close>), a \<open>Date\<close>, and the \<open>message\<close> of
  an error.
\<close>

datatype part = Lit string | Num jsnum | Fixed nat jsnum | DateVal jsdate | Message exn

type_synonym jstext = "part list"

text \<open>A value that holds a number or a string, as \<open>typeof\<close> tells them apart.\<close>

datatype scalar = Number jsnum | String jstext

definition toFixed :: "nat \<Rightarrow> jsnum \<Rightarrow> jstext" where
  "toFixed d x = [Fixed d x]"

definition of_len :: "nat \<Rightarrow> jsnum" where
  "of_len n = Fin (of_nat n)"

text \<open>A string is truthy when it is not empty; a formatted number never is empty.\<close>

fun part_empty :: "part \<Rightarrow> bool" where
  "part_empty (Lit s) = (s = [])"
| "part_empty (Message e) = (case e of Error m \<Rightarrow> m = [] | _ \<Rightarrow> False)"
| "part_empty _ = False"

definition text_truthy :: "jstext \<Rightarrow> bool" where
  "text_truthy t = (\<not> list_all part_empty t)"

fun truthy :: "jsval \<Rightarrow> bool" where
  "truthy JUndefined = False"
| "truthy JNull = False"
| "truthy (JBool b) = b"
| "truthy (JNum x) = (x \<noteq> NaN \<and> x \<noteq> Fin 0)"
| "truthy (JStr s) = (s \<noteq> [])"
| "truthy (JBuiltin k) = True"
| "truthy (JArr xs) = True"
| "truthy (JObj kvs) = True"

fun js_typeof :: "jsval \<Rightarrow> string" where
  "js_typeof JUndefined = ''undefined''"
| "js_typeof JNull = ''object''"
| "js_typeof (JBool b) = ''boolean''"
| "js_typeof (JNum x) = ''number''"
| "js_typeof (JStr s) = ''string''"
| "js_typeof (JBuiltin k) = (if k = ''__proto__'' then ''object'' else ''function'')"
| "js_typeof (JArr xs) = ''object''"
| "js_typeof (JObj kvs) = ''object''"

subsection \<open>Strings\<close>

text \<open>
  Strings are taken over ASCII: \<open>toLowerCase\<close> maps \<open>A\<close>-\<open>Z\<close>, and \<open>trim\<close> and the
  regular-expression class \<open>\s\<close> see the six ASCII white-space characters.
\<close>

definition is_space :: "char \<Rightarrow> bool" where
  "is_space c = (of_char c \<in> {9, 10, 11, 12, 13, 32 :: nat})"




definition trimStart :: "string \<Rightarrow> string" where
  "trimStart s = dropWhile is_space s"

definition trimEnd :: "string \<Rightarrow> string" where
  "trimEnd s = rev (dropWhile is_space (rev s))"

definition trim :: "string \<Rightarrow> string" where
  "trim s = trimEnd (trimStart s)"

section \<open>Field catalog (field-mapping.js)\<close>

record field_descriptor =
  name :: string
  type :: string
  description :: string

definition FIELD_MAPPING :: "(nat \<times> field_descriptor) list" where
  "FIELD_MAPPING =
   [(0, \<lparr>name = ''transactionId'', type = ''string'', description = ''Unique transaction identifier''\<rparr>),
    (1, \<lparr>name = ''timestamp'', type = ''datetime'', description = ''Transaction timestamp''\<rparr>),
    (2, \<lparr>name = ''cardNumber'', type = ''string'', description = ''Credit card number''\<rparr>),
    (3, \<lparr>name = ''merchant'', type = ''string'', description = ''Merchant name''\<rparr>),
    (4, \<lparr>name = ''category'', type = ''string'',
         description = ''Transaction category (home, travel, food_dining, etc.)''\<rparr>),
    (5, \<lparr>name = ''amt'', type = ''number'', description = ''Transaction amount in dollars''\<rparr>),
    (6, \<lparr>name = ''firstName'', type = ''string'', description = ''Cardholder first name''\<rparr>),
    (7, \<lparr>name = ''lastName'', type = ''string'', description = ''Cardholder last name''\<rparr>),
    (8, \<lparr>name = ''gender'', type = ''string'', description = ''Cardholder gender (M/F)''\<rparr>),
    (9, \<lparr>name = ''streetAddress'', type = ''string'', description = ''Street address''\<rparr>),
    (10, \<lparr>name = ''city'', type = ''string'', description = ''City''\<rparr>),
    (11, \<lparr>name = ''state'', type = ''string'', description = ''State abbreviation''\<rparr>),
    (12, \<lparr>name = ''zip'', type = ''string'', description = ''ZIP code''\<rparr>),
    (13, \<lparr>name = ''lat'', type = ''number'', description = ''Latitude coordinate''\<rparr>),
    (14, \<lparr>name = ''long'', type = ''number'', description = ''Longitude coordinate''\<rparr>),
    (15, \<lparr>name = ''cityPop'', type = ''number'', description = ''City population''\<rparr>),
    (16, \<lparr>name = ''job'', type = ''string'', description = ''Job title''\<rparr>),
    (17, \<lparr>name = ''dob'', type = ''date'', description = ''Date of birth''\<rparr>),
    (18, \<lparr>name = ''transHash'', type = ''string'', description = ''Transaction hash''\<rparr>),
    (19, \<lparr>name = ''unixTime'', type = ''number'', description = ''Unix timestamp''\<rparr>),
    (20, \<lparr>name = ''merLat'', type = ''number'', description = ''Merchant latitude''\<rparr>),
    (21, \<lparr>name = ''merLong'', type = ''number'', description = ''Merchant longitude''\<rparr>),
    (22, \<lparr>name = ''isFraud'', type = ''number'', description = ''Fraud indicator (0/1)''\<rparr>),
    (23, \<lparr>name = ''merZip'', type = ''string'', description = ''Merchant ZIP code''\<rparr>)]"



text \<open>
  The tables are object literals, so a read \<open>TABLE[key]\<close> that finds no own property
  goes on to \<open>Object.prototype\<close>, whose members are these.
\<close>

definition Object_prototype_keys :: "string list" where
  "Object_prototype_keys =
   [''constructor'', ''__proto__'', ''__defineGetter__'', ''__defineSetter__'',
    ''__lookupGetter__'', ''__lookupSetter__'', ''hasOwnProperty'', ''isPrototypeOf'',
    ''propertyIsEnumerable'', ''toLocaleString'', ''toString'', ''valueOf'']"




subsection \<open>Property reads\<close>

text \<open>
  \<open>get_prop v k\<close> is the read \<open>v.k\<close>: a \<open>TypeError\<close> on \<open>undefined\<close> and \<open>null\<close>, an
  own property of an object, else the member of \<open>Object.prototype\<close>, else \<open>undefined\<close>.
  The names the program reads (\<open>response\<close>, \<open>conditions\<close>, \<open>event\<close>, \<open>all\<close>, \<open>any\<close>,
  \<open>fact\<close>, \<open>operator\<close>, \<open>value\<close>) are members of no other built-in prototype.
\<close>

fun get_prop :: "jsval \<Rightarrow> string \<Rightarrow> exn + jsval" where
  "get_prop JUndefined k = Inl (TypeError k)"
| "get_prop JNull k = Inl (TypeError k)"
| "get_prop (JObj kvs) k =
     Inr (case map_of kvs k of
            Some v \<Rightarrow> v
          | None \<Rightarrow> if k \<in> set Object_prototype_keys then JBuiltin k else JUndefined)"
| "get_prop v k = Inr (if k \<in> set Object_prototype_keys then JBuiltin k else JUndefined)"

section \<open>JSON.parse\<close>

text \<open>
  The grammar of ECMA-404 as \<open>JSON.parse\<close> reads it: a scanner that is a state machine
  over the characters, then a pushdown automaton over the tokens. A later duplicate key
  of an object replaces the earlier value. An escape \<open>\uXXXX\<close> above ASCII is kept as
  the bytes of its UTF-8 form. The text of a \<open>SyntaxError\<close> is the engine's and is not
  modelled.
\<close>

datatype token =
    TLBrace | TRBrace | TLBrack | TRBrack | TColon | TComma
  | TString string | TNumber jsnum | TTrue | TFalse | TNull

definition is_digit :: "char \<Rightarrow> bool" where
  "is_digit c = (48 \<le> (of_char c :: nat) \<and> (of_char c :: nat) \<le> 57)"

definition digit_val :: "char \<Rightarrow> nat" where
  "digit_val c = of_char c - 48"

definition digits_val :: "string \<Rightarrow> nat" where
  "digits_val ds = foldl (\<lambda>acc c. 10 * acc + digit_val c) 0 ds"

definition hex_val :: "char \<Rightarrow> nat option" where
  "hex_val c = (let n = (of_char c :: nat) in
     if 48 \<le> n \<and> n \<le> 57 then Some (n - 48)
     else if 65 \<le> n \<and> n \<le> 70 then Some (n - 55)
     else if 97 \<le> n \<and> n \<le> 102 then Some (n - 87)
     else None)"

definition utf8 :: "nat \<Rightarrow> string" where
  "utf8 n =
     (if n < 128 then [char_of n]
      else if n < 2048 then [char_of (192 + n div 64), char_of (128 + n mod 64)]
      else [char_of (224 + n div 4096), char_of (128 + (n div 64) mod 64),
            char_of (128 + n mod 64)])"

definition pow10 :: "int \<Rightarrow> rat" where
  "pow10 e = (if 0 \<le> e then 10 ^ nat e else 1 / 10 ^ nat (- e))"

text \<open>\<open>-? (0 | [1-9][0-9]*) (. [0-9]+)? ([eE] [+-]? [0-9]+)?\<close>, rounded to a binary64.\<close>

definition exponent_part :: "string \<Rightarrow> int option" where
  "exponent_part w =
     (case w of
        [] \<Rightarrow> Some 0
      | c # r \<Rightarrow>
          if c = CHR ''e'' \<or> c = CHR ''E'' then
            (let neg = (r \<noteq> [] \<and> hd r = CHR ''-'');
                 ds = (if r \<noteq> [] \<and> (hd r = CHR ''-'' \<or> hd r = CHR ''+'') then tl r else r)
             in if ds \<noteq> [] \<and> list_all is_digit ds
                then Some (if neg then - int (digits_val ds) else int (digits_val ds))
                else None)
          else None)"

definition number_token :: "string \<Rightarrow> jsnum option" where
  "number_token w =
     (let neg = (w \<noteq> [] \<and> hd w = CHR ''-'');
          r1 = (if neg then tl w else w);
          ip = takeWhile is_digit r1;
          r2 = dropWhile is_digit r1;
          has_frac = (r2 \<noteq> [] \<and> hd r2 = CHR ''.'');
          fp = (if has_frac then takeWhile is_digit (tl r2) else []);
          r3 = (if has_frac then dropWhile is_digit (tl r2) else r2)
      in if ip = [] \<or> (hd ip = CHR ''0'' \<and> ip \<noteq> ''0'') \<or> (has_frac \<and> fp = []) then None
         else (case exponent_part r3 of
                 None \<Rightarrow> None
               | Some e \<Rightarrow>
                   (let q = of_nat (digits_val (ip @ fp)) * pow10 (e - int (length fp))
                    in Some (fl (if neg then - q else q)))))"

definition word_token :: "string \<Rightarrow> token option" where
  "word_token w =
     (if w = ''true'' then Some TTrue
      else if w = ''false'' then Some TFalse
      else if w = ''null'' then Some TNull
      else map_option TNumber (number_token w))"

datatype lexmode =
    LIdle
  | LStr string
  | LEsc string
  | LUni string "nat list"
  | LWord string
  | LErr

definition is_json_space :: "char \<Rightarrow> bool" where
  "is_json_space c = (of_char c \<in> {9, 10, 13, 32 :: nat})"

definition is_word_char :: "char \<Rightarrow> bool" where
  "is_word_char c = (let n = (of_char c :: nat) in
     (48 \<le> n \<and> n \<le> 57) \<or> (65 \<le> n \<and> n \<le> 90) \<or> (97 \<le> n \<and> n \<le> 122)
     \<or> c = CHR ''-'' \<or> c = CHR ''+'' \<or> c = CHR ''.'')"

definition punct :: "char \<Rightarrow> token option" where
  "punct c =
     (if c = CHR ''{'' then Some TLBrace else if c = CHR ''}'' then Some TRBrace
      else if c = CHR ''['' then Some TLBrack else if c = CHR '']'' then Some TRBrack
      else if c = CHR '':'' then Some TColon else if c = CHR '','' then Some TComma
      else None)"

definition lex_idle :: "token list \<Rightarrow> char \<Rightarrow> token list \<times> lexmode" where
  "lex_idle toks c =
     (if is_json_space c then (toks, LIdle)
      else if c = CHR 0x22 then (toks, LStr [])
      else if is_word_char c then (toks, LWord [c])
      else (case punct c of Some t \<Rightarrow> (t # toks, LIdle) | None \<Rightarrow> (toks, LErr)))"

definition unescape :: "char \<Rightarrow> char option" where
  "unescape c =
     (if c = CHR 0x22 \<or> c = CHR 0x5C \<or> c = CHR ''/'' then Some c
      else if c = CHR ''b'' then Some (CHR 0x08)
      else if c = CHR ''f'' then Some (CHR 0x0C)
      else if c = CHR ''n'' then Some (CHR 0x0A)
      else if c = CHR ''r'' then Some (CHR 0x0D)
      else if c = CHR ''t'' then Some (CHR 0x09)
      else None)"

text \<open>The token list and the string under construction are kept reversed.\<close>

fun lex_step :: "char \<Rightarrow> token list \<times> lexmode \<Rightarrow> token list \<times> lexmode" where
  "lex_step c (toks, LIdle) = lex_idle toks c"
| "lex_step c (toks, LStr acc) =
     (if c = CHR 0x22 then (TString (rev acc) # toks, LIdle)
      else if c = CHR 0x5C then (toks, LEsc acc)
      else if (of_char c :: nat) < 32 then (toks, LErr)
      else (toks, LStr (c # acc)))"
| "lex_step c (toks, LEsc acc) =
     (if c = CHR ''u'' then (toks, LUni acc [])
      else (case unescape c of Some d \<Rightarrow> (toks, LStr (d # acc)) | None \<Rightarrow> (toks, LErr)))"
| "lex_step c (toks, LUni acc ds) =
     (case hex_val c of
        None \<Rightarrow> (toks, LErr)
      | Some d \<Rightarrow>
          if length ds = 3
          then (toks, LStr (rev (utf8 (foldl (\<lambda>a h. 16 * a + h) 0 (ds @ [d]))) @ acc))
          else (toks, LUni acc (ds @ [d])))"
| "lex_step c (toks, LWord acc) =
     (if is_word_char c then (toks, LWord (c # acc))
      else (case word_token (rev acc) of
              None \<Rightarrow> (toks, LErr)
            | Some t \<Rightarrow> lex_idle (t # toks) c))"
| "lex_step c (toks, LErr) = (toks, LErr)"

definition lex :: "string \<Rightarrow> token list option" where
  "lex s =
     (case fold lex_step s ([], LIdle) of
        (toks, LIdle) \<Rightarrow> Some (rev toks)
      | (toks, LWord acc) \<Rightarrow> map_option (\<lambda>t. rev (t # toks)) (word_token (rev acc))
      | _ \<Rightarrow> None)"

datatype frame = FArr "jsval list" | FObj "(string \<times> jsval) list" string

datatype pstate =
    SVal "frame list"
  | SArrStart "frame list"
  | SArrNext "jsval list" "frame list"
  | SObjStart "frame list"
  | SObjKey "(string \<times> jsval) list" "frame list"
  | SColon "(string \<times> jsval) list" string "frame list"
  | SObjNext "(string \<times> jsval) list" "frame list"
  | SDone jsval
  | SErr

fun complete :: "jsval \<Rightarrow> frame list \<Rightarrow> pstate" where
  "complete v [] = SDone v"
| "complete v (FArr acc # stk) = SArrNext (v # acc) stk"
| "complete v (FObj kvs k # stk) = SObjNext (AList.update k v kvs) stk"

fun value_start :: "token \<Rightarrow> frame list \<Rightarrow> pstate" where
  "value_start TLBrace stk = SObjStart stk"
| "value_start TLBrack stk = SArrStart stk"
| "value_start (TString s) stk = complete (JStr s) stk"
| "value_start (TNumber x) stk = complete (JNum x) stk"
| "value_start TTrue stk = complete (JBool True) stk"
| "value_start TFalse stk = complete (JBool False) stk"
| "value_start TNull stk = complete JNull stk"
| "value_start _ stk = SErr"

fun parse_step :: "token \<Rightarrow> pstate \<Rightarrow> pstate" where
  "parse_step t (SVal stk) = value_start t stk"
| "parse_step t (SArrStart stk) =
     (if t = TRBrack then complete (JArr []) stk else value_start t (FArr [] # stk))"
| "parse_step t (SArrNext acc stk) =
     (if t = TComma then SVal (FArr acc # stk)
      else if t = TRBrack then complete (JArr (rev acc)) stk
      else SErr)"
| "parse_step t (SObjStart stk) =
     (case t of TRBrace \<Rightarrow> complete (JObj []) stk | TString k \<Rightarrow> SColon [] k stk | _ \<Rightarrow> SErr)"
| "parse_step t (SObjKey kvs stk) =
     (case t of TString k \<Rightarrow> SColon kvs k stk | _ \<Rightarrow> SErr)"
| "parse_step t (SColon kvs k stk) =
     (if t = TColon then SVal (FObj kvs k # stk) else SErr)"
| "parse_step t (SObjNext kvs stk) =
     (if t = TComma then SObjKey kvs stk
      else if t = TRBrace then complete (JObj kvs) stk
      else SErr)"
| "parse_step t (SDone v) = SErr"
| "parse_step t SErr = SErr"

definition JSON_parse :: "string \<Rightarrow> exn + jsval" where
  "JSON_parse s =
     (case lex s of
        None \<Rightarrow> Inl SyntaxError
      | Some toks \<Rightarrow>
          (case fold parse_step toks (SVal []) of
             SDone v \<Rightarrow> Inr v
           | _ \<Rightarrow> Inl SyntaxError))"

section \<open>Transactions (csv-processor.js)\<close>

text \<open>
  A transaction as \<open>loadTransactions\<close> builds it from a row that has every column of
  \<open>FIELD_MAPPING\<close>: a string field is a trimmed string, a number field is
  \<open>parseFloat(value) || 0\<close> (so never \<open>NaN\<close>), a date field is a \<open>Date\<close>. On such a
  record every read of a field finds a value of the field's type; in particular
  \<open>t.amt.toFixed(2)\<close> always has a number to format.
\<close>

record transaction =
  transactionId :: string
  timestamp :: jsdate
  cardNumber :: string
  merchant :: string
  category :: string
  amt :: jsnum
  firstName :: string
  lastName :: string
  gender :: string
  streetAddress :: string
  city :: string
  state :: string
  zip' :: string
  lat :: jsnum
  long :: jsnum
  cityPop :: jsnum
  job :: string
  dob :: jsdate
  transHash :: string
  unixTime :: jsnum
  merLat :: jsnum
  merLong :: jsnum
  isFraud :: jsnum
  merZip :: string

text \<open>
  The copy \<open>{...transaction, _matchedEvents: events}\<close> that \<open>applyRule\<close> collects: every
  field of the transaction, and the events of the match.
\<close>

record matched_transaction = transaction +
  matchedEvents :: "jsval list"

record CSVProcessor =
  csvFilePath :: string
  transactions :: "transaction list"

definition getTransactions :: "CSVProcessor \<Rightarrow> transaction list" where
  "getTransactions p = transactions p"

section \<open>The world outside the program\<close>

text \<open>
  The body of a \<open>POST /api/generate\<close> request, and what the program does not compute
  itself: the file system behind \<open>loadTransactions\<close>, the HTTP client (a \<open>GET\<close> gives a
  status or throws, a \<open>POST\<close> gives \<open>response.data\<close> or throws), and the
  json-rules-engine library (\<open>addRule\<close> may throw; \<open>run\<close>, on a fresh engine that holds
  one rule, gives the events of a transaction or throws).
\<close>

record request =
  rq_model :: string
  rq_prompt :: jstext
  rq_stream :: bool
  rq_temperature :: rat
  rq_top_p :: rat

record env =
  loadTransactions :: "string \<Rightarrow> exn + transaction list"
  axios_get :: "string \<Rightarrow> exn + nat"
  axios_post :: "string \<Rightarrow> request \<Rightarrow> exn + jsval"
  engine_addRule :: "jsval \<Rightarrow> exn option"
  engine_run :: "jsval \<Rightarrow> transaction \<Rightarrow> exn + jsval list"

text \<open>
  What a call does to the world, in order. The progress lines of \<open>console.log\<close> are
  left out; \<open>console.error\<close> is kept.
\<close>

datatype effect =
    HttpGet string
  | HttpPost string request
  | EngineAddRule jsval
  | EngineRun transaction
  | ConsoleError jstext

section \<open>Ollama integration (ollama-integration.js)\<close>

record OllamaIntegration =
  ollamaUrl :: string
  model :: string

definition new_OllamaIntegration :: OllamaIntegration where
  "new_OllamaIntegration =
     \<lparr>ollamaUrl = ''http://localhost:11434'', model = ''llama3.2:3b-instruct-fp16''\<rparr>"

definition isAvailable :: "env \<Rightarrow> OllamaIntegration \<Rightarrow> bool \<times> effect list" where
  "isAvailable w this =
     (let url = ollamaUrl this @ ''/api/tags'' in
      (case axios_get w url of Inl error \<Rightarrow> False | Inr status \<Rightarrow> status = 200,
       [HttpGet url]))"

subsection \<open>Prompts\<close>

definition dq :: string where
  "dq = [CHR 0x22]"

definition sq :: string where
  "sq = [CHR 0x27]"

definition nl :: string where
  "nl = [CHR 0x0A]"

fun join :: "string \<Rightarrow> string list \<Rightarrow> string" where
  "join sep [] = []"
| "join sep [x] = x"
| "join sep (x # y # ys) = x @ sep @ join sep (y # ys)"

definition availableFields :: string where
  "availableFields =
     join nl (map (\<lambda>(index, field). name field @ '' ('' @ type field @ ''): '' @ description field)
                FIELD_MAPPING)"

definition buildRuleGenerationPrompt :: "string \<Rightarrow> jstext" where
  "buildRuleGenerationPrompt query = [Lit (join nl
    [''You are a JSON rules engine generator for credit card transaction filtering. Your task is to convert natural language queries into precise JSON rules.'',
     '''',
     ''AVAILABLE FIELDS:'',
     availableFields,
     '''',
     ''SUPPORTED OPERATORS (use these EXACT names):'',
     ''- lessThan (for <, '' @ dq @ ''less than'' @ dq @ '', '' @ dq @ ''under'' @ dq @ '', '' @ dq @ ''below'' @ dq @ '')'',
     ''- greaterThan (for >, '' @ dq @ ''greater than'' @ dq @ '', '' @ dq @ ''over'' @ dq @ '', '' @ dq @ ''above'' @ dq @ '') '',
     ''- equal (for =, '' @ dq @ ''equals'' @ dq @ '', '' @ dq @ ''is'' @ dq @ '', '' @ dq @ ''equal to'' @ dq @ '') - NOT '' @ dq @ ''equals'' @ dq,
     ''- notEqual (for !=, '' @ dq @ ''not equal'' @ dq @ '', '' @ dq @ ''not equals'' @ dq @ '')'',
     ''- lessThanInclusive (for <=, '' @ dq @ ''less than or equal'' @ dq @ '')'',
     ''- greaterThanInclusive (for >=, '' @ dq @ ''greater than or equal'' @ dq @ '')'',
     ''- contains (for text contains)'',
     ''- in (for value in array)'',
     '''',
     ''CRITICAL RULES:'',
     ''1. Use ONLY the field names from the available fields list above'',
     ''2. Use ONLY the exact operator names listed above (e.g., '' @ dq @ ''equal'' @ dq @ '' NOT '' @ dq @ ''equals'' @ dq @ '')'',
     ''3. The '' @ dq @ ''amt'' @ dq @ '' field represents transaction amount in dollars'',
     ''4. For categories, use '' @ dq @ ''equal'' @ dq @ '' operator with exact string matching'',
     ''5. Return ONLY valid JSON, no other text'',
     ''6. Surround your JSON output with <result></result> tags'',
     '''',
     ''QUERY: '' @ dq @ query @ dq,
     '''',
     ''Generate a JSON rule following this exact structure:'',
     ''{'',
     ''  '' @ dq @ ''conditions'' @ dq @ '': {'',
     ''    '' @ dq @ ''all'' @ dq @ '': ['',
     ''      {'',
     ''        '' @ dq @ ''fact'' @ dq @ '': '' @ dq @ ''field_name'' @ dq @ '','',
     ''        '' @ dq @ ''operator'' @ dq @ '': '' @ dq @ ''operator_name'' @ dq @ '', '',
     ''        '' @ dq @ ''value'' @ dq @ '': value'',
     ''      }'',
     ''    ]'',
     ''  },'',
     ''  '' @ dq @ ''event'' @ dq @ '': {'',
     ''    '' @ dq @ ''type'' @ dq @ '': '' @ dq @ ''transaction-match'' @ dq @ '','',
     ''    '' @ dq @ ''params'' @ dq @ '': {'',
     ''      '' @ dq @ ''message'' @ dq @ '': '' @ dq @ ''Clear description of what this rule matches'' @ dq,
     ''    }'',
     ''  }'',
     ''}'',
     '''',
     ''<result>''])]"

subsection \<open>Summary statistics and prompt\<close>

text \<open>
  The block \<open>Calculate insights\<close> of \<open>buildSummaryPrompt\<close>, which
  \<open>generateFallbackSummary\<close> repeats without the average. \<open>find\<close> gives the first
  element in array order.
\<close>

record 'a insights =
  lowestAmount :: jsnum
  highestAmount :: jsnum
  avgAmount :: jsnum
  lowestTransaction :: "'a option"
  highestTransaction :: "'a option"

definition amounts_of :: "'a transaction_scheme list \<Rightarrow> jsnum list" where
  "amounts_of matchedTransactions = map amt matchedTransactions"

definition calculate_insights :: "'a transaction_scheme list \<Rightarrow> 'a transaction_scheme insights" where
  "calculate_insights matchedTransactions =
     (let amounts = amounts_of matchedTransactions;
          lowest = Math_min amounts;
          highest = Math_max amounts
      in \<lparr>lowestAmount = lowest,
          highestAmount = highest,
          avgAmount = jsdiv (foldl jsadd (Fin 0) amounts) (of_len (length amounts)),
          lowestTransaction = find (\<lambda>t. num_strict_eq (amt t) lowest) matchedTransactions,
          highestTransaction = find (\<lambda>t. num_strict_eq (amt t) highest) matchedTransactions\<rparr>)"

text \<open>\<open>t?.merchant || 'Unknown'\<close> and \<open>t?.timestamp || 'Unknown date'\<close>.\<close>

definition merchant_or_unknown :: "'a transaction_scheme option \<Rightarrow> part" where
  "merchant_or_unknown t =
     (case t of
        None \<Rightarrow> Lit ''Unknown''
      | Some t \<Rightarrow> if merchant t \<noteq> [] then Lit (merchant t) else Lit ''Unknown'')"

definition timestamp_or_unknown :: "'a transaction_scheme option \<Rightarrow> part" where
  "timestamp_or_unknown t =
     (case t of None \<Rightarrow> Lit ''Unknown date'' | Some t \<Rightarrow> DateVal (timestamp t))"

definition match_percentage :: "nat \<Rightarrow> nat \<Rightarrow> jstext" where
  "match_percentage matchCount totalTransactions =
     toFixed 1 (jsmul (jsdiv (of_len matchCount) (of_len totalTransactions)) (Fin 100))"

definition sample_line :: "nat \<times> 'a transaction_scheme \<Rightarrow> jstext" where
  "sample_line it =
     (case it of (i, t) \<Rightarrow>
        [Num (of_len (i + 1)), Lit ''. $''] @ toFixed 2 (amt t) @
        [Lit '' at '', Lit (merchant t), Lit '' ('', Lit (category t), Lit '') in '',
         Lit (city t), Lit '', '', Lit (state t), Lit '' on '', DateVal (timestamp t)])"

fun join_text :: "string \<Rightarrow> jstext list \<Rightarrow> jstext" where
  "join_text sep [] = []"
| "join_text sep [x] = x"
| "join_text sep (x # y # ys) = x @ [Lit sep] @ join_text sep (y # ys)"

definition buildSummaryPrompt ::
  "string \<Rightarrow> 'a transaction_scheme list \<Rightarrow> nat \<Rightarrow> jsval \<Rightarrow> jstext" where
  "buildSummaryPrompt originalQuery matchedTransactions totalTransactions generatedRule =
     (let transactionSummary = take 10 matchedTransactions;
          ins = calculate_insights matchedTransactions
      in [Lit (join nl
            [''You are a financial data analyst providing insights on credit card transaction analysis results.'',
             '''',
             ''ORIGINAL QUERY: '' @ dq @ originalQuery @ dq,
             '''',
             ''ANALYSIS RESULTS:'',
             ''- Total transactions in dataset: '']),
          Num (of_len totalTransactions),
          Lit (nl @ ''- Transactions matching criteria: ''),
          Num (of_len (length matchedTransactions)),
          Lit (nl @ ''- Match percentage: '')] @
         match_percentage (length matchedTransactions) totalTransactions @
         [Lit (''%'' @ nl @ nl @ ''FINANCIAL INSIGHTS:'' @ nl @ ''- Lowest matching amount: $'')] @
         toFixed 2 (lowestAmount ins) @
         [Lit '' at '', merchant_or_unknown (lowestTransaction ins),
          Lit '' on '', timestamp_or_unknown (lowestTransaction ins),
          Lit (nl @ ''- Highest matching amount: $'')] @
         toFixed 2 (highestAmount ins) @
         [Lit '' at '', merchant_or_unknown (highestTransaction ins),
          Lit '' on '', timestamp_or_unknown (highestTransaction ins),
          Lit (nl @ ''- Average amount: $'')] @
         toFixed 2 (avgAmount ins) @
         [Lit (nl @ nl @ ''SAMPLE MATCHING TRANSACTIONS:'' @ nl)] @
         join_text nl (map sample_line (enumerate 0 transactionSummary)) @
         [Lit (join nl
            ['''',
             '''',
             ''TASK: Generate a natural language summary that:'',
             ''1. States how many transactions matched the criteria'',
             ''2. Highlights the most notable findings (lowest, highest amounts)'',
             ''3. Mentions interesting patterns in merchants, categories, or locations'',
             ''4. Uses a professional but conversational tone'',
             ''5. Keep it concise (2-3 sentences maximum)'',
             '''',
             ''Provide only the summary, no additional text:''])])"

subsection \<open>Reading the rule out of the completion\<close>

text \<open>
  \<open>split_first pat s\<close> cuts \<open>s\<close> around the leftmost occurrence of \<open>pat\<close>. The lazy
  \<open>/<result>(.*?)<\/result>/s\<close> captures what lies between the first \<open><result>\<close> and
  the first \<open></result>\<close> after it.
\<close>

fun split_first :: "string \<Rightarrow> string \<Rightarrow> (string \<times> string) option" where
  "split_first pat [] = (if pat = [] then Some ([], []) else None)"
| "split_first pat (c # cs) =
     (if prefix pat (c # cs) then Some ([], drop (length pat) (c # cs))
      else map_option (\<lambda>(before, after). (c # before, after)) (split_first pat cs))"

definition resultMatch :: "string \<Rightarrow> string option" where
  "resultMatch response =
     (case split_first ''<result>'' response of
        None \<Rightarrow> None
      | Some (before, rest) \<Rightarrow> map_option fst (split_first ''</result>'' rest))"

definition fence :: string where
  "fence = replicate 3 (CHR 0x60)"

text \<open>\<open>s.replace(/^pat\s*/, '')\<close> and \<open>s.replace(/\s*```$/, '')\<close>.\<close>

definition strip_leading :: "string \<Rightarrow> string \<Rightarrow> string" where
  "strip_leading pat s = (if prefix pat s then trimStart (drop (length pat) s) else s)"

definition strip_trailing_fence :: "string \<Rightarrow> string" where
  "strip_trailing_fence s =
     (if suffix fence s then trimEnd (take (length s - length fence) s) else s)"

text \<open>The greedy \<open>/\{.*\}/s\<close>: from the first \<open>{\<close> to the last \<open>}\<close> after it.\<close>

definition jsonMatch :: "string \<Rightarrow> string option" where
  "jsonMatch s =
     (let from_brace = dropWhile (\<lambda>c. c \<noteq> CHR ''{'') s;
          upto_brace = rev (dropWhile (\<lambda>c. c \<noteq> CHR ''}'') (rev from_brace))
      in if upto_brace = [] then None else Some upto_brace)"

definition jsonText :: "string \<Rightarrow> string" where
  "jsonText response =
     (let t0 = (case resultMatch response of Some inner \<Rightarrow> trim inner | None \<Rightarrow> response);
          t1 = strip_trailing_fence (strip_leading (fence @ ''json'') t0);
          t2 = strip_trailing_fence (strip_leading fence t1)
      in case jsonMatch t2 of Some m \<Rightarrow> m | None \<Rightarrow> t2)"

subsection \<open>validateRule\<close>

fun conditions_ok :: "jsval list \<Rightarrow> exn + bool" where
  "conditions_ok [] = Inr True"
| "conditions_ok (condition # rest) =
     (case get_prop condition ''fact'' of
        Inl e \<Rightarrow> Inl e
      | Inr factv \<Rightarrow>
          if \<not> truthy factv then Inr False
          else (case get_prop condition ''operator'' of
                  Inl e \<Rightarrow> Inl e
                | Inr operatorv \<Rightarrow>
                    if \<not> truthy operatorv then Inr False
                    else (case get_prop condition ''value'' of
                            Inl e \<Rightarrow> Inl e
                          | Inr v \<Rightarrow> if v = JUndefined then Inr False else conditions_ok rest)))"

definition validateRule :: "jsval \<Rightarrow> exn + bool" where
  "validateRule rule =
     (case get_prop rule ''conditions'' of
        Inl e \<Rightarrow> Inl e
      | Inr conds \<Rightarrow>
          if \<not> truthy conds then Inr False
          else (case get_prop rule ''event'' of
                  Inl e \<Rightarrow> Inl e
                | Inr event \<Rightarrow>
                    if \<not> truthy event then Inr False
                    else (case get_prop conds ''all'' of
                            Inl e \<Rightarrow> Inl e
                          | Inr allv \<Rightarrow>
                              (case get_prop conds ''any'' of
                                 Inl e \<Rightarrow> Inl e
                               | Inr anyv \<Rightarrow>
                                   if \<not> truthy allv \<and> \<not> truthy anyv then Inr False
                                   else (case (if truthy allv then allv else anyv) of
                                           JArr conditions \<Rightarrow>
                                             if conditions = [] then Inr False
                                             else conditions_ok conditions
                                         | _ \<Rightarrow> Inr False)))))"

subsection \<open>parseJsonFromResponse and generateRule\<close>

text \<open>
  The result objects \<open>{success: true, rule, source}\<close> and
  \<open>{success: false, error, rawResponse?}\<close>.
\<close>

datatype rule_result =
    RuleSuccess (rule: jsval) (rule_source: string)
  | RuleFailure (rule_error: jstext) (rawResponse: "jsval option")

definition parse_failed :: "exn \<Rightarrow> jsval \<Rightarrow> rule_result" where
  "parse_failed error response =
     RuleFailure [Lit ''Failed to parse JSON from LLM response: '', Message error] (Some response)"

definition format_mismatch :: "jsval \<Rightarrow> rule_result" where
  "format_mismatch response =
     RuleFailure [Lit ''Generated rule does not match expected json-rules-engine format'']
       (Some response)"

definition parseJsonFromResponse :: "jsval \<Rightarrow> rule_result" where
  "parseJsonFromResponse response =
     (case response of
        JStr txt \<Rightarrow>
          (case JSON_parse (jsonText txt) of
             Inl error \<Rightarrow> parse_failed error response
           | Inr parsedRule \<Rightarrow>
               (case validateRule parsedRule of
                  Inl error \<Rightarrow> parse_failed error response
                | Inr valid \<Rightarrow>
                    if valid then RuleSuccess parsedRule ''ollama''
                    else format_mismatch response))
      | _ \<Rightarrow> parse_failed (TypeError ''match'') response)"

definition generate_request :: "OllamaIntegration \<Rightarrow> jstext \<Rightarrow> rat \<Rightarrow> request" where
  "generate_request this prompt temperature =
     \<lparr>rq_model = model this, rq_prompt = prompt, rq_stream = False,
      rq_temperature = temperature, rq_top_p = 9 / 10\<rparr>"

definition request_failed :: "OllamaIntegration \<Rightarrow> exn \<Rightarrow> rule_result" where
  "request_failed this error =
     RuleFailure
       [Lit ''Ollama request failed: '', Message error,
        Lit (''. Please ensure Ollama is running and the model '' @ sq), Lit (model this),
        Lit (sq @ '' is available.'')]
       None"

definition generateRule :: "env \<Rightarrow> OllamaIntegration \<Rightarrow> string \<Rightarrow> rule_result \<times> effect list" where
  "generateRule w this naturalLanguageQuery =
     (let prompt = buildRuleGenerationPrompt naturalLanguageQuery;
          url = ollamaUrl this @ ''/api/generate'';
          req = generate_request this prompt (1 / 10)
      in case axios_post w url req of
           Inl error \<Rightarrow>
             (request_failed this error,
              [HttpPost url req, ConsoleError [Lit ''Ollama request failed:'', Message error]])
         | Inr data \<Rightarrow>
             (case get_prop data ''response'' of
                Inl error \<Rightarrow>
                  (request_failed this error,
                   [HttpPost url req, ConsoleError [Lit ''Ollama request failed:'', Message error]])
              | Inr generatedText \<Rightarrow> (parseJsonFromResponse generatedText, [HttpPost url req])))"

subsection \<open>Summaries\<close>

datatype summary_result =
    SummarySuccess (summary_text: string)
  | SummaryFailure (summary_error: jstext) (fallbackSummary: jstext)

definition generateFallbackSummary ::
  "string \<Rightarrow> 'a transaction_scheme list \<Rightarrow> nat \<Rightarrow> exn + jstext" where
  "generateFallbackSummary originalQuery matchedTransactions totalTransactions =
     (let matchCount = length matchedTransactions;
          percentage = match_percentage matchCount totalTransactions
      in if matchCount = 0 then
           Inr [Lit (''No transactions matched the criteria '' @ dq), Lit originalQuery,
                Lit (dq @ '' out of ''), Num (of_len totalTransactions),
                Lit '' total transactions.'']
         else
           (let amounts = amounts_of matchedTransactions;
                lowest = Math_min amounts;
                highest = Math_max amounts
            in case find (\<lambda>t. num_strict_eq (amt t) lowest) matchedTransactions of
                 None \<Rightarrow> Inl (TypeError ''merchant'')
               | Some lowestT \<Rightarrow>
                   (case find (\<lambda>t. num_strict_eq (amt t) highest) matchedTransactions of
                      None \<Rightarrow> Inl (TypeError ''merchant'')
                    | Some highestT \<Rightarrow>
                        Inr ([Lit ''Found '', Num (of_len matchCount), Lit '' transactions (''] @
                             percentage @
                             [Lit (''% of total) matching '' @ dq), Lit originalQuery,
                              Lit (dq @ ''. The lowest amount was $'')] @
                             toFixed 2 lowest @
                             [Lit '' at '', Lit (merchant lowestT),
                              Lit '', and the highest was $''] @
                             toFixed 2 highest @
                             [Lit '' at '', Lit (merchant highestT), Lit ''.'']))))"

text \<open>
  \<open>generateResultSummary\<close> builds the prompt and posts it; the \<open>catch\<close> covers the post
  and the read \<open>response.data.response.trim()\<close>, and calls \<open>generateFallbackSummary\<close>,
  whose own error is not caught.
\<close>

definition summary_failed ::
  "exn \<Rightarrow> string \<Rightarrow> 'a transaction_scheme list \<Rightarrow> nat \<Rightarrow> exn + summary_result" where
  "summary_failed error originalQuery matchedTransactions totalTransactions =
     (case generateFallbackSummary originalQuery matchedTransactions totalTransactions of
        Inl e \<Rightarrow> Inl e
      | Inr fallback \<Rightarrow>
          Inr (SummaryFailure [Lit ''Summary generation failed: '', Message error] fallback))"

definition generateResultSummary ::
  "env \<Rightarrow> OllamaIntegration \<Rightarrow> string \<Rightarrow> 'a transaction_scheme list \<Rightarrow> nat \<Rightarrow> jsval
   \<Rightarrow> (exn + summary_result) \<times> effect list" where
  "generateResultSummary w this originalQuery matchedTransactions totalTransactions generatedRule =
     (let prompt = buildSummaryPrompt originalQuery matchedTransactions totalTransactions
                     generatedRule;
          url = ollamaUrl this @ ''/api/generate'';
          req = generate_request this prompt (3 / 10);
          failed = (\<lambda>error.
            (summary_failed error originalQuery matchedTransactions totalTransactions,
             [HttpPost url req, ConsoleError [Lit ''Summary generation failed:'', Message error]]))
      in case axios_post w url req of
           Inl error \<Rightarrow> failed error
         | Inr data \<Rightarrow>
             (case get_prop data ''response'' of
                Inl error \<Rightarrow> failed error
              | Inr (JStr txt) \<Rightarrow> (Inr (SummarySuccess (trim txt)), [HttpPost url req])
              | Inr _ \<Rightarrow> failed (TypeError ''trim'')))"

section \<open>Rule engine service (rule-engine-service.js)\<close>

record RuleEngineService =
  csvProcessor :: CSVProcessor
  ollama :: OllamaIntegration
  isInitialized :: bool

definition new_RuleEngineService :: "string \<Rightarrow> RuleEngineService" where
  "new_RuleEngineService path =
     \<lparr>csvProcessor = \<lparr>csvFilePath = path, transactions = []\<rparr>,
      ollama = new_OllamaIntegration,
      isInitialized = False\<rparr>"

datatype init_result =
    InitSuccess (init_message: string) (ollamaAvailable: bool) (transactionCount: nat)
  | InitFailure (init_error: jstext)

definition initialize ::
  "env \<Rightarrow> RuleEngineService \<Rightarrow> init_result \<times> RuleEngineService \<times> effect list" where
  "initialize w this =
     (case loadTransactions w (csvFilePath (csvProcessor this)) of
        Inl error \<Rightarrow>
          (InitFailure [Message error], this,
           [ConsoleError [Lit ''Failed to initialize service:'', Message error]])
      | Inr rows \<Rightarrow>
          (let loaded = this\<lparr>csvProcessor := (csvProcessor this)\<lparr>transactions := rows\<rparr>\<rparr>;
               (available, effs) = isAvailable w (ollama this)
           in if \<not> available then
                (InitFailure [Lit ''Ollama is required but not available. Please ensure Ollama is running on http://localhost:11434 and the model is available.''],
                 loaded, effs)
              else
                (InitSuccess ''Rule engine service initialized successfully'' available
                   (length (getTransactions (csvProcessor loaded))),
                 loaded\<lparr>isInitialized := True\<rparr>, effs)))"

subsection \<open>applyRule\<close>

text \<open>
  The loop over the transactions: a run that throws is logged and skipped, a run with at
  least one event pushes the augmented copy.
\<close>

definition with_events :: "transaction \<Rightarrow> jsval list \<Rightarrow> matched_transaction" where
  "with_events t events = transaction.extend t \<lparr>matchedEvents = events\<rparr>"

fun apply_loop ::
  "env \<Rightarrow> jsval \<Rightarrow> transaction list \<Rightarrow> matched_transaction list \<times> effect list" where
  "apply_loop w jsonRule [] = ([], [])"
| "apply_loop w jsonRule (t # ts) =
     (let (matched, effs) = apply_loop w jsonRule ts
      in case engine_run w jsonRule t of
           Inl error \<Rightarrow>
             (matched,
              EngineRun t
                # ConsoleError [Lit ''Error applying rule to transaction:'', Message error]
                # effs)
         | Inr events \<Rightarrow>
             (if length events > 0 then with_events t events # matched else matched,
              EngineRun t # effs))"

definition applyRule ::
  "env \<Rightarrow> RuleEngineService \<Rightarrow> jsval
   \<Rightarrow> (exn + matched_transaction list) \<times> RuleEngineService \<times> effect list" where
  "applyRule w this jsonRule =
     (case engine_addRule w jsonRule of
        Some error \<Rightarrow> (Inl error, this, [EngineAddRule jsonRule])
      | None \<Rightarrow>
          (let (matchedTransactions, effs) =
                 apply_loop w jsonRule (getTransactions (csvProcessor this))
           in (Inr matchedTransactions, this, EngineAddRule jsonRule # effs)))"

subsection \<open>processQuery\<close>

record results =
  matchCount :: nat
  totalTransactions :: nat
  matchPercentage :: scalar

datatype query_result =
    Success (query: string) (generatedRule: jsval)
      (matchedTransactions: "matched_transaction list") (results: results)
      (summary: jstext) (source: string)
  | Failure (error: jstext) (helpMessage: "string option")

definition help_text :: string where
  "help_text = ''Please ensure Ollama is running and try queries like: '' @ dq @
     ''show me transactions with amount less than 10'' @ dq @ '' or '' @ dq @
     ''find transactions where category is food_dining'' @ dq"

definition finalSummary :: "summary_result \<Rightarrow> jstext" where
  "finalSummary summaryResult =
     (case summaryResult of
        SummarySuccess s \<Rightarrow> [Lit s]
      | SummaryFailure e fallback \<Rightarrow>
          if text_truthy fallback then fallback else [Lit ''Summary generation failed.''])"

definition processQuery ::
  "env \<Rightarrow> RuleEngineService \<Rightarrow> string
   \<Rightarrow> (exn + query_result) \<times> RuleEngineService \<times> effect list" where
  "processQuery w this naturalLanguageQuery =
     (if \<not> isInitialized this then
        (Inr (Failure [Lit ''Service not initialized. Call initialize() first.''] None), this, [])
      else
        (case generateRule w (ollama this) naturalLanguageQuery of
           (RuleFailure err raw, e1) \<Rightarrow> (Inr (Failure err (Some help_text)), this, e1)
         | (RuleSuccess generated src, e1) \<Rightarrow>
             (case applyRule w this generated of
                (Inl thrown, this2, e2) \<Rightarrow> (Inl thrown, this2, e1 @ e2)
              | (Inr filteredTransactions, this2, e2) \<Rightarrow>
                  (let total = length (getTransactions (csvProcessor this2)) in
                   case generateResultSummary w (ollama this2) naturalLanguageQuery
                          filteredTransactions total generated of
                     (Inl thrown, e3) \<Rightarrow> (Inl thrown, this2, e1 @ e2 @ e3)
                   | (Inr summaryResult, e3) \<Rightarrow>
                       (Inr (Success naturalLanguageQuery generated filteredTransactions
                               \<lparr>matchCount = length filteredTransactions,
                                totalTransactions = total,
                                matchPercentage =
                                  String (match_percentage (length filteredTransactions) total)\<rparr>
                               (finalSummary summaryResult) ''ollama''),
                        this2, e1 @ e2 @ e3)))))"

section \<open>Specification-level notions\<close>

text \<open>
  The states a service can be in before any call of \<open>initialize\<close> has succeeded: the
  state the constructor builds, and what a failed \<open>initialize\<close> leaves behind.
\<close>

inductive uninitialized :: "RuleEngineService \<Rightarrow> bool" where
  fresh: "uninitialized (new_RuleEngineService path)"
| failed: "uninitialized this \<Longrightarrow> initialize w this = (InitFailure err, this', effs)
             \<Longrightarrow> uninitialized this'"

text \<open>
  The matches of a list of transactions, stated without the loop: the transactions whose
  run gave at least one event, in their order, each with its events.
\<close>

definition match_of :: "env \<Rightarrow> jsval \<Rightarrow> transaction \<Rightarrow> matched_transaction option" where
  "match_of w jsonRule t =
     (case engine_run w jsonRule t of
        Inl err \<Rightarrow> None
      | Inr events \<Rightarrow> if events = [] then None else Some (with_events t events))"

definition matches_of :: "env \<Rightarrow> jsval \<Rightarrow> transaction list \<Rightarrow> matched_transaction list" where
  "matches_of w jsonRule ts = List.map_filter (match_of w jsonRule) ts"

subsection \<open>The shape of a rule\<close>









section \<open>Example worlds\<close>

definition example_transaction :: "string \<Rightarrow> string \<Rightarrow> jsnum \<Rightarrow> transaction" where
  "example_transaction ident shop amount =
     \<lparr>transactionId = ident, timestamp = JSDate (Fin 1546300818000), cardNumber = ''4000123412341234'',
      merchant = shop, category = ''food_dining'', amt = amount,
      firstName = ''Ada'', lastName = ''Byron'', gender = ''F'',
      streetAddress = ''1 Main St'', city = ''Springfield'', state = ''IL'', zip' = ''62701'',
      lat = Fin 39, long = Fin (- 89), cityPop = Fin 116250, job = ''Engineer'',
      dob = JSDate (Fin 0), transHash = ''0a1b2c'', unixTime = Fin 1546300818,
      merLat = Fin 39, merLong = Fin (- 89), isFraud = Fin 0, merZip = ''62701''\<rparr>"

definition example_rows :: "transaction list" where
  "example_rows =
     [example_transaction ''t1'' ''Starbucks'' (Fin 5),
      example_transaction ''t2'' ''Shell'' (Fin 15),
      example_transaction ''t3'' ''Delta'' (Fin 25)]"


definition example_event :: jsval where
  "example_event =
     JObj [(''type'', JStr ''transaction-match''),
           (''params'', JObj [(''message'', JStr ''amount under 10'')])]"

definition example_rule :: jsval where
  "example_rule =
     JObj [(''conditions'',
            JObj [(''all'', JArr [JObj [(''fact'', JStr ''amt''), (''operator'', JStr ''lessThan''),
                                        (''value'', JNum (Fin 10))]])]),
           (''event'', example_event)]"

definition example_completion :: string where
  "example_completion =
     ''{'' @ dq @ ''conditions'' @ dq @ '': {'' @ dq @ ''all'' @ dq @ '': [{'' @
     dq @ ''fact'' @ dq @ '': '' @ dq @ ''amt'' @ dq @ '', '' @
     dq @ ''operator'' @ dq @ '': '' @ dq @ ''lessThan'' @ dq @ '', '' @
     dq @ ''value'' @ dq @ '': 10}]}, '' @
     dq @ ''event'' @ dq @ '': {'' @ dq @ ''type'' @ dq @ '': '' @ dq @ ''transaction-match'' @ dq @ '', '' @
     dq @ ''params'' @ dq @ '': {'' @ dq @ ''message'' @ dq @ '': '' @ dq @ ''amount under 10'' @ dq @
     ''}}}'' @ nl @ ''</result>''"

text \<open>
  An engine that matches an amount below ten and throws on an amount that is not
  finite; a backend that completes with \<open>example_completion\<close> for a rule and with a
  sentence for a summary.
\<close>

definition below_ten :: "jsval \<Rightarrow> transaction \<Rightarrow> exn + jsval list" where
  "below_ten jsonRule t =
     (case amt t of
        Fin a \<Rightarrow> Inr (if a < 10 then [example_event] else [])
      | _ \<Rightarrow> Inl (Error ''Undefined fact: amt''))"

definition completes :: "string \<Rightarrow> string \<Rightarrow> string \<Rightarrow> request \<Rightarrow> exn + jsval" where
  "completes rule_reply summary_reply url req =
     Inr (JObj [(''response'',
                 JStr (if rq_temperature req = 1 / 10 then rule_reply else summary_reply))])"

definition example_world :: env where
  "example_world =
     \<lparr>loadTransactions = (\<lambda>path. Inr example_rows),
      axios_get = (\<lambda>url. Inr 200),
      axios_post = completes example_completion '' A narrative from the backend. '',
      engine_addRule = (\<lambda>r. None),
      engine_run = below_ten\<rparr>"


text \<open>The same world when the backend cannot be reached.\<close>

definition refused :: exn where
  "refused = Error ''connect ECONNREFUSED 127.0.0.1:11434''"

definition offline_world :: env where
  "offline_world =
     example_world\<lparr>axios_get := (\<lambda>url. Inl refused), axios_post := (\<lambda>url req. Inl refused)\<rparr>"

text \<open>The backend answers the rule request and is gone for the summary.\<close>

definition rule_only :: "string \<Rightarrow> string \<Rightarrow> request \<Rightarrow> exn + jsval" where
  "rule_only rule_reply url req =
     (if rq_temperature req = 1 / 10 then Inr (JObj [(''response'', JStr rule_reply)])
      else Inl refused)"

definition flaky_world :: env where
  "flaky_world = example_world\<lparr>axios_post := rule_only example_completion\<rparr>"

definition example_service :: RuleEngineService where
  "example_service =
     \<lparr>csvProcessor = \<lparr>csvFilePath = ''data.csv'', transactions = example_rows\<rparr>,
      ollama = new_OllamaIntegration,
      isInitialized = True\<rparr>"




section \<open>Verification\<close>

subsection \<open>Field catalog\<close>















subsection \<open>The service before initialization\<close>

lemma uninitialized_flag: "uninitialized this \<Longrightarrow> \<not> isInitialized this"
proof (induction rule: uninitialized.induct)
  case (fresh path)
  show ?case by (simp add: new_RuleEngineService_def)
next
  case (failed this w err this' effs)
  then show ?case
    by (auto simp: initialize_def Let_def split: sum.splits prod.splits if_splits)
qed

lemma offline_initialize:
  "initialize offline_world (new_RuleEngineService ''data.csv'') =
     (InitFailure [Lit ''Ollama is required but not available. Please ensure Ollama is running on http://localhost:11434 and the model is available.''],
      (new_RuleEngineService ''data.csv'')
        \<lparr>csvProcessor := \<lparr>csvFilePath = ''data.csv'', transactions = example_rows\<rparr>\<rparr>,
      [HttpGet ''http://localhost:11434/api/tags''])"
  by (simp add: initialize_def offline_world_def example_world_def new_RuleEngineService_def
      isAvailable_def new_OllamaIntegration_def Let_def)

text \<open>
  C10. For every query text, \<open>processQuery\<close> on a service on which no \<open>initialize\<close> has
  succeeded (the constructor's state, or the state a failed \<open>initialize\<close> leaves) returns
  \<open>{success: false}\<close> with the error \<open>Service not initialized. Call initialize() first.\<close>,
  leaves the service as it is, and does nothing to the world: no request to the backend,
  no rule generated, no record evaluated.
\<close>

theorem processQuery_before_initialize:
  assumes "uninitialized this"
  shows "processQuery w this naturalLanguageQuery =
           (Inr (Failure [Lit ''Service not initialized. Call initialize() first.''] None),
            this, [])"
  using uninitialized_flag [OF assms] by (simp add: processQuery_def)

theorem processQuery_before_initialize_witness:
  "processQuery example_world
     ((new_RuleEngineService ''data.csv'')
        \<lparr>csvProcessor := \<lparr>csvFilePath = ''data.csv'', transactions = example_rows\<rparr>\<rparr>)
     ''amount below 10'' =
   (Inr (Failure [Lit ''Service not initialized. Call initialize() first.''] None),
    (new_RuleEngineService ''data.csv'')
        \<lparr>csvProcessor := \<lparr>csvFilePath = ''data.csv'', transactions = example_rows\<rparr>\<rparr>, [])"
  by (rule processQuery_before_initialize [OF uninitialized.failed [OF uninitialized.fresh offline_initialize]])


subsection \<open>Applying a rule\<close>

lemma apply_loop_matches: "fst (apply_loop w jsonRule ts) = matches_of w jsonRule ts"
  by (induction ts)
     (auto simp: matches_of_def match_of_def split: prod.splits sum.splits)




lemma applyRule_accepted:
  assumes "engine_addRule w jsonRule = None"
  shows "applyRule w this jsonRule =
           (Inr (matches_of w jsonRule (getTransactions (csvProcessor this))), this,
            EngineAddRule jsonRule # snd (apply_loop w jsonRule (getTransactions (csvProcessor this))))"
  using assms apply_loop_matches [of w jsonRule "getTransactions (csvProcessor this)"]
  by (cases "apply_loop w jsonRule (getTransactions (csvProcessor this))")
     (simp add: applyRule_def)




lemma truncate_with_events: "transaction.truncate (with_events t events) = t"
  by (simp add: with_events_def transaction.truncate_def transaction.extend_def)

lemma matches_of_subseq: "subseq (map transaction.truncate (matches_of w jsonRule ts)) ts"
  by (induction ts)
     (auto simp: matches_of_def match_of_def truncate_with_events
           split: sum.splits)

lemma matches_of_member:
  "m \<in> set (matches_of w jsonRule ts) \<Longrightarrow>
   \<exists>t \<in> set ts. \<exists>events. engine_run w jsonRule t = Inr events \<and> events \<noteq> [] \<and>
      m = with_events t events"
  by (induction ts)
     (auto simp: matches_of_def match_of_def split: sum.splits if_splits)

text \<open>
  C6. For every rule the engine accepts and every record set, \<open>applyRule\<close> returns copies
  of input records: without the added \<open>_matchedEvents\<close> the result is a subsequence of
  the input (a subset, in the input's order), every returned record is the copy of an
  input record whose run gave events, and the service with its records is returned as it
  was.
\<close>

theorem applyRule_ordered_subset:
  assumes "engine_addRule w jsonRule = None"
  shows "\<exists>matched effs.
           applyRule w this jsonRule = (Inr matched, this, effs) \<and>
           subseq (map transaction.truncate matched) (getTransactions (csvProcessor this)) \<and>
           (\<forall>m \<in> set matched. \<exists>t \<in> set (getTransactions (csvProcessor this)). \<exists>events.
               engine_run w jsonRule t = Inr events \<and> events \<noteq> [] \<and>
               m = transaction.extend t \<lparr>matchedEvents = events\<rparr> \<and>
               transaction.truncate m = t)"
  using applyRule_accepted [OF assms, of this]
    matches_of_subseq [of w jsonRule "getTransactions (csvProcessor this)"]
    matches_of_member [of _ w jsonRule "getTransactions (csvProcessor this)"]
    truncate_with_events
  by (fastforce simp: with_events_def)

theorem applyRule_ordered_subset_witness:
  "\<exists>matched effs.
     applyRule example_world example_service example_rule = (Inr matched, example_service, effs) \<and>
     subseq (map transaction.truncate matched) (getTransactions (csvProcessor example_service)) \<and>
     (\<forall>m \<in> set matched. \<exists>t \<in> set (getTransactions (csvProcessor example_service)). \<exists>events.
         engine_run example_world example_rule t = Inr events \<and> events \<noteq> [] \<and>
         m = transaction.extend t \<lparr>matchedEvents = events\<rparr> \<and>
         transaction.truncate m = t)"
proof -
  have "engine_addRule example_world example_rule = None"
    by (simp add: example_world_def)
  then show ?thesis by (rule applyRule_ordered_subset)
qed

subsection \<open>Validating and parsing a generated rule\<close>







lemma parseJsonFromResponse_parsed:
  assumes "JSON_parse (jsonText txt) = Inr parsed"
  shows "parseJsonFromResponse (JStr txt) =
     (case validateRule parsed of
        Inl e \<Rightarrow> parse_failed e (JStr txt)
      | Inr valid \<Rightarrow> if valid then RuleSuccess parsed ''ollama'' else format_mismatch (JStr txt))"
  using assms by (simp add: parseJsonFromResponse_def)


lemma generateRule_completion:
  assumes "axios_post w (ollamaUrl this @ ''/api/generate'')
             (generate_request this (buildRuleGenerationPrompt q) (1 / 10)) = Inr data"
    and "get_prop data ''response'' = Inr generatedText"
  shows "generateRule w this q =
           (parseJsonFromResponse generatedText,
            [HttpPost (ollamaUrl this @ ''/api/generate'')
               (generate_request this (buildRuleGenerationPrompt q) (1 / 10))])"
  using assms by (simp add: generateRule_def Let_def)

lemma processQuery_rule_failure:
  assumes "isInitialized this" and "generateRule w (ollama this) q = (RuleFailure err raw, effs)"
  shows "processQuery w this q = (Inr (Failure err (Some help_text)), this, effs)"
  using assms by (simp add: processQuery_def)



lemma get_response: "get_prop (JObj [(''response'', v)]) ''response'' = Inr v"
  by simp









subsection \<open>The example completion\<close>

lemma ilog2_10: "ilog2 10 = 3"
  by (simp add: ilog2_def compute_floorlog)

lemma fl_10: "fl 10 = Fin 10"
  by (simp add: fl_def ilog2_10 pow2_def round_even_def Let_def)

lemma number_token_10: "number_token ''10'' = Some (Fin 10)"
  by (simp add: number_token_def is_digit_def digits_val_def digit_val_def exponent_part_def
      pow10_def fl_10 Let_def)

lemma word_token_10: "word_token ''10'' = Some (TNumber (Fin 10))"
  by (simp add: word_token_def number_token_10)

lemmas lex_simps = lex_def lex_idle_def is_json_space_def is_word_char_def punct_def unescape_def
  hex_val_def Let_def

lemma jsonText_example:
  "jsonText example_completion = take (length example_completion - 10) example_completion"
  by code_simp

lemma lex_example: "lex (jsonText example_completion) =
  Some [TLBrace, TString ''conditions'', TColon, TLBrace, TString ''all'', TColon, TLBrack, TLBrace,
        TString ''fact'', TColon, TString ''amt'', TComma, TString ''operator'', TColon,
        TString ''lessThan'', TComma, TString ''value'', TColon, TNumber (Fin 10), TRBrace, TRBrack,
        TRBrace, TComma, TString ''event'', TColon, TLBrace, TString ''type'', TColon,
        TString ''transaction-match'', TComma, TString ''params'', TColon, TLBrace,
        TString ''message'', TColon, TString ''amount under 10'', TRBrace, TRBrace, TRBrace]"
  unfolding jsonText_example
  by (simp add: example_completion_def dq_def nl_def lex_simps word_token_10)

lemma parse_example: "JSON_parse (jsonText example_completion) = Inr example_rule"
  by (simp add: JSON_parse_def lex_example example_rule_def example_event_def)

subsection \<open>Minimum, maximum and first occurrence\<close>



















subsection \<open>Summaries\<close>






lemma processQuery_steps:
  assumes "isInitialized this"
    and "generateRule w (ollama this) q = (RuleSuccess g src, e1)"
    and "engine_addRule w g = None"
    and "generateResultSummary w (ollama this) q
           (matches_of w g (getTransactions (csvProcessor this)))
           (length (getTransactions (csvProcessor this))) g = (Inr sr, e3)"
  shows "processQuery w this q =
     (Inr (Success q g (matches_of w g (getTransactions (csvProcessor this)))
             \<lparr>matchCount = length (matches_of w g (getTransactions (csvProcessor this))),
              totalTransactions = length (getTransactions (csvProcessor this)),
              matchPercentage =
                String (match_percentage
                  (length (matches_of w g (getTransactions (csvProcessor this))))
                  (length (getTransactions (csvProcessor this))))\<rparr>
             (finalSummary sr) ''ollama''),
      this,
      e1 @ (EngineAddRule g # snd (apply_loop w g (getTransactions (csvProcessor this)))) @ e3)"
  unfolding processQuery_def
  by (simp add: assms applyRule_accepted [OF assms(3), of this] Let_def)

lemma validate_example: "validateRule example_rule = Inr True"
  by (simp add: validateRule_def example_rule_def example_event_def Object_prototype_keys_def)

lemma generateRule_example:
  assumes "axios_post w (ollamaUrl this @ ''/api/generate'')
             (generate_request this (buildRuleGenerationPrompt q) (1 / 10))
           = Inr (JObj [(''response'', JStr example_completion)])"
  shows "generateRule w this q =
           (RuleSuccess example_rule ''ollama'',
            [HttpPost (ollamaUrl this @ ''/api/generate'')
               (generate_request this (buildRuleGenerationPrompt q) (1 / 10))])"
  using generateRule_completion [OF assms get_response]
    parseJsonFromResponse_parsed [OF parse_example] validate_example
  by simp

lemma example_post_rule:
  "axios_post example_world url (generate_request this prompt (1 / 10)) =
     Inr (JObj [(''response'', JStr example_completion)])"
  by (simp add: example_world_def completes_def generate_request_def)

lemma example_post_summary:
  "axios_post example_world url (generate_request this prompt (3 / 10)) =
     Inr (JObj [(''response'', JStr '' A narrative from the backend. '')])"
  by (simp add: example_world_def completes_def generate_request_def)




lemma trim_sentence: "trim '' A narrative from the backend. '' = ''A narrative from the backend.''"
  by code_simp

lemma example_summary:
  "generateResultSummary example_world this q matched n r =
     (Inr (SummarySuccess ''A narrative from the backend.''),
      [HttpPost (ollamaUrl this @ ''/api/generate'')
         (generate_request this (buildSummaryPrompt q matched n r) (3 / 10))])"
  by (simp add: generateResultSummary_def Let_def example_post_summary trim_sentence)

lemma example_service_facts:
  "isInitialized example_service"
  "getTransactions (csvProcessor example_service) = example_rows"
  "engine_addRule example_world g = None"
  "engine_addRule flaky_world g = None"
  by (simp_all add: example_service_def getTransactions_def example_world_def flaky_world_def)

lemma example_matches:
  "matches_of example_world g example_rows =
     [with_events (example_transaction ''t1'' ''Starbucks'' (Fin 5)) [example_event]]"
  "matches_of flaky_world g example_rows =
     [with_events (example_transaction ''t1'' ''Starbucks'' (Fin 5)) [example_event]]"
  by (simp_all add: matches_of_def match_of_def example_world_def flaky_world_def below_ten_def
      example_rows_def example_transaction_def)








subsection \<open>The success result\<close>

text \<open>
  C4 (as amended). Every success result of \<open>processQuery\<close> has the query as given, the
  generated rule, the matches of the service's records, the counts of the matches and of
  the records, and as \<open>matchPercentage\<close> the string
  \<open>((matchCount / totalTransactions) * 100).toFixed(1)\<close>, then the summary and the
  source \<open>ollama\<close>; the service is left as it was.
\<close>

theorem processQuery_success_shape:
  assumes "processQuery w this q = (Inr (Success q' g m res fin src), this', effs)"
  shows "q' = q \<and> src = ''ollama'' \<and> this' = this \<and> isInitialized this \<and>
         (\<exists>s e1. generateRule w (ollama this) q = (RuleSuccess g s, e1)) \<and>
         engine_addRule w g = None \<and>
         m = matches_of w g (getTransactions (csvProcessor this)) \<and>
         (\<exists>sr e3. generateResultSummary w (ollama this) q m
                     (length (getTransactions (csvProcessor this))) g = (Inr sr, e3) \<and>
                   fin = finalSummary sr) \<and>
         res = \<lparr>matchCount = length m,
                totalTransactions = length (getTransactions (csvProcessor this)),
                matchPercentage =
                  String [Fixed 1 (jsmul (jsdiv (of_len (length m))
                                     (of_len (length (getTransactions (csvProcessor this)))))
                                   (Fin 100))]\<rparr>"
proof -
  let ?ts = "getTransactions (csvProcessor this)"
  have init: "isInitialized this"
    using assms by (auto simp: processQuery_def split: if_splits)
  obtain rr e1 where gen: "generateRule w (ollama this) q = (rr, e1)"
    by (cases "generateRule w (ollama this) q")
  show ?thesis
  proof (cases rr)
    case (RuleFailure err raw)
    then show ?thesis
      using assms processQuery_rule_failure [OF init, of w q err raw e1] gen by simp
  next
    case (RuleSuccess g0 s)
    note gen0 = gen [unfolded RuleSuccess]
    show ?thesis
    proof (cases "engine_addRule w g0")
      case (Some thrown)
      then show ?thesis
        using assms init gen0 by (simp add: processQuery_def applyRule_def)
    next
      case None
      obtain x e3 where summ:
        "generateResultSummary w (ollama this) q (matches_of w g0 ?ts) (length ?ts) g0 = (x, e3)"
        by (cases "generateResultSummary w (ollama this) q (matches_of w g0 ?ts) (length ?ts) g0")
      show ?thesis
      proof (cases x)
        case (Inl thrown)
        then show ?thesis
          using assms init gen0 summ applyRule_accepted [OF None, of this]
          by (simp add: processQuery_def Let_def)
      next
        case (Inr sr)
        from processQuery_steps [OF init gen0 None summ [unfolded Inr]] assms
        have eqs: "q' = q" "g = g0" "m = matches_of w g0 ?ts" "fin = finalSummary sr"
          "src = ''ollama''" "this' = this"
          "res = \<lparr>matchCount = length (matches_of w g0 ?ts), totalTransactions = length ?ts,
                   matchPercentage = String (match_percentage (length (matches_of w g0 ?ts))
                                               (length ?ts))\<rparr>"
          by simp_all
        show ?thesis
          using eqs init gen0 None summ [unfolded Inr]
          by (auto simp: match_percentage_def toFixed_def)
      qed
    qed
  qed
qed


lemma processQuery_example:
  "\<exists>effs. processQuery example_world example_service ''amount below 10'' =
     (Inr (Success ''amount below 10'' example_rule
             [with_events (example_transaction ''t1'' ''Starbucks'' (Fin 5)) [example_event]]
             \<lparr>matchCount = 1, totalTransactions = 3,
              matchPercentage = String [Fixed 1 (jsmul (jsdiv (Fin 1) (Fin 3)) (Fin 100))]\<rparr>
             [Lit ''A narrative from the backend.''] ''ollama''),
      example_service, effs)"
proof -
  have gen: "generateRule example_world (ollama example_service) ''amount below 10'' =
      (RuleSuccess example_rule ''ollama'',
       [HttpPost (ollamaUrl (ollama example_service) @ ''/api/generate'')
          (generate_request (ollama example_service)
             (buildRuleGenerationPrompt ''amount below 10'') (1 / 10))])"
    by (rule generateRule_example [OF example_post_rule])
  have len: "length example_rows = 3"
    by (simp add: example_rows_def)
  note steps = processQuery_steps [OF example_service_facts(1) gen example_service_facts(3)
      example_summary, unfolded example_service_facts(2) example_matches len]
  show ?thesis
    using steps by (simp add: finalSummary_def match_percentage_def toFixed_def of_len_def)
qed

theorem processQuery_success_shape_witness:
  "\<exists>g m res fin src effs.
     processQuery example_world example_service ''amount below 10'' =
       (Inr (Success ''amount below 10'' g m res fin src), example_service, effs) \<and>
     src = ''ollama'' \<and>
     m = matches_of example_world g (getTransactions (csvProcessor example_service)) \<and>
     res = \<lparr>matchCount = length m,
            totalTransactions = length (getTransactions (csvProcessor example_service)),
            matchPercentage =
              String [Fixed 1 (jsmul (jsdiv (of_len (length m))
                                 (of_len (length (getTransactions (csvProcessor example_service)))))
                               (Fin 100))]\<rparr>"
proof -
  from processQuery_example obtain effs where
    pq: "processQuery example_world example_service ''amount below 10'' =
     (Inr (Success ''amount below 10'' example_rule
             [with_events (example_transaction ''t1'' ''Starbucks'' (Fin 5)) [example_event]]
             \<lparr>matchCount = 1, totalTransactions = 3,
              matchPercentage = String [Fixed 1 (jsmul (jsdiv (Fin 1) (Fin 3)) (Fin 100))]\<rparr>
             [Lit ''A narrative from the backend.''] ''ollama''),
      example_service, effs)"
    by blast
  note shape = processQuery_success_shape [OF pq]
  have m: "[with_events (example_transaction ''t1'' ''Starbucks'' (Fin 5)) [example_event]] =
      matches_of example_world example_rule (getTransactions (csvProcessor example_service))"
    using shape by (elim conjE)
  have res: "\<lparr>matchCount = 1, totalTransactions = 3,
              matchPercentage = String [Fixed 1 (jsmul (jsdiv (Fin 1) (Fin 3)) (Fin 100))]\<rparr> =
      \<lparr>matchCount = length [with_events (example_transaction ''t1'' ''Starbucks'' (Fin 5))
                                 [example_event]],
       totalTransactions = length (getTransactions (csvProcessor example_service)),
       matchPercentage =
         String [Fixed 1 (jsmul (jsdiv (of_len (length [with_events
                     (example_transaction ''t1'' ''Starbucks'' (Fin 5)) [example_event]]))
                   (of_len (length (getTransactions (csvProcessor example_service)))))
                 (Fin 100))]\<rparr>"
    using shape by (elim conjE)
  show ?thesis
    by (intro exI conjI, rule pq, rule refl, rule m, rule res)
qed


text \<open>
  C4 as stated has \<open>matchPercentage\<close> a number. In the example world the field holds the
  string that \<open>toFixed(1)\<close> returns.
\<close>

theorem percentage_is_a_string_counterexample:
  "fst (processQuery example_world example_service ''amount below 10'') =
     Inr (Success ''amount below 10'' example_rule
            [with_events (example_transaction ''t1'' ''Starbucks'' (Fin 5)) [example_event]]
            \<lparr>matchCount = 1, totalTransactions = 3,
             matchPercentage = String [Fixed 1 (jsmul (jsdiv (Fin 1) (Fin 3)) (Fin 100))]\<rparr>
            [Lit ''A narrative from the backend.''] ''ollama'')"
  using processQuery_example by auto

end
